theory Spec2Isabelle
  imports Main "HOL-Library.Word" "HOL-Library.Sublist"
begin

unbundle bit_operations_syntax

section \<open>The data model of package bus\<close>

text \<open>
  A \<open>Payload\<close> is anything with a \<open>Type()\<close> and a \<open>Data()\<close> method. The bus reads
  \<open>Type()\<close> only; the data bag maps strings to values of any kind, which the bus never
  inspects. A payload is a value here: the nil interface, on which \<open>p.Type()\<close> panics, is
  not a payload of the model.
\<close>

datatype any = AnyNil | AnyBool bool | AnyInt int | AnyString string

record Payload =
  Type :: string
  Data :: "string \<rightharpoonup> any"

text \<open>
  \<open>busError\<close> is the one error type of the package. Go's \<open>error\<close> interface holds either
  a \<open>*busError\<close> or an error value a handler made; the nil error is \<open>None\<close>. A
  \<open>time.Time\<close> is a point on the clock, a natural number here.
\<close>

type_synonym time = nat

record busError =
  When :: time
  What :: string

datatype error = ErrBus busError | ErrOther string

text \<open>
  \<open>Error()\<close> formats the error as \<open>"at %v, %s"\<close>; how \<open>%v\<close> prints a time is left to the
  parameter \<open>fmt_time\<close>.
\<close>

definition Error :: "(time \<Rightarrow> string) \<Rightarrow> busError \<Rightarrow> string" where
  "Error fmt_time e = ''at '' @ fmt_time (When e) @ '', '' @ What e"

text \<open>
  A \<open>Handler\<close> is a \<open>func(p Payload) error\<close>. What a handler does besides returning is
  its effect on the state \<open>'u\<close> of the program around the bus, so a handler is a function
  from the payload and that state to its result and the new state. Handlers return: a
  nil \<open>func\<close>, a handler that panics or loops, and a handler that calls the bus it is
  registered on are outside the model.
\<close>

type_synonym 'u Handler = "Payload \<Rightarrow> 'u \<Rightarrow> error option \<times> 'u"

text \<open>
  \<open>type flag int\<close>, with the two constants \<open>1 << iota\<close> of the const block: \<open>iota\<close> is 0
  on the first line and 1 on the second.
\<close>

type_synonym flag = "64 word"

definition synchronous :: flag where
  "synchronous = push_bit (0::nat) 1"

definition asynchronous :: flag where
  "asynchronous = push_bit (1::nat) 1"

record rider =
  payload :: Payload
  mode :: flag

text \<open>
  A \<open>chan Payload\<close> is a reference; the model names the channel by a number and records
  what is sent on it. A Go map is a reference that may be nil: \<open>None\<close> is the nil map,
  \<open>Some m\<close> a map made by \<open>make\<close>. Reading a nil map gives the zero value, assigning to
  it panics.
\<close>

type_synonym chan = nat

type_synonym ('k, 'v) gomap = "('k \<rightharpoonup> 'v) option"

datatype panic = AssignmentToEntryInNilMap

definition make_map :: "('k, 'v) gomap" where
  "make_map = Some Map.empty"

definition map_entry :: "('k, 'v) gomap \<Rightarrow> 'k \<Rightarrow> 'v option" where
  "map_entry m k = (case m of None \<Rightarrow> None | Some f \<Rightarrow> f k)"

definition map_get :: "('k, 'v list) gomap \<Rightarrow> 'k \<Rightarrow> 'v list" where
  \<comment> \<open>\<open>m[k]\<close> for a map of slices: the nil slice when the key is absent\<close>
  "map_get m k = (case map_entry m k of None \<Rightarrow> [] | Some v \<Rightarrow> v)"

definition map_ok :: "('k, 'v) gomap \<Rightarrow> 'k \<Rightarrow> bool" where
  \<comment> \<open>the \<open>ok\<close> of \<open>_, ok := m[k]\<close>\<close>
  "map_ok m k = (map_entry m k \<noteq> None)"

definition map_set :: "('k, 'v) gomap \<Rightarrow> 'k \<Rightarrow> 'v \<Rightarrow> panic + ('k, 'v) gomap" where
  \<comment> \<open>\<open>m[k] = v\<close>\<close>
  "map_set m k v = (case m of None \<Rightarrow> Inl AssignmentToEntryInNilMap
                     | Some f \<Rightarrow> Inr (Some (f(k \<mapsto> v))))"

definition map_len :: "('k, 'v) gomap \<Rightarrow> nat" where
  "map_len m = (case m of None \<Rightarrow> 0 | Some f \<Rightarrow> card (dom f))"

text \<open>
  The \<open>Bus\<close> struct. \<open>pubchan\<close> holds the riders that were sent on the channel and that
  the dispatch loop has not received yet, oldest first. The methods have a value
  receiver, but the maps and the channel are references, so what a method does to them
  is seen by every copy of the struct: the model passes the one state of the bus along.
\<close>

record 'u Bus =
  pubchan :: "rider list"
  subchans :: "(string, chan list) gomap"
  handlers :: "(string, 'u Handler list) gomap"
  flags :: "(Payload, flag) gomap"

section \<open>What the bus does to the world\<close>

text \<open>
  Everything the bus does outside its own fields is an event: a line written to the log
  (one constructor per \<open>log.Print\<close> of the source, with the values it formats), the call
  of a handler, and a payload sent on a subscriber's channel. \<open>trace\<close> is the sequence of
  events so far, \<open>user\<close> the state the handlers work on, and \<open>goroutines\<close> the deliveries
  started by \<open>go b.deliver(r)\<close> that have not run yet.
\<close>

datatype 'u event =
    LogMessage string
  | LogPosting string
  | LogCreating
  | LogRunning
  | LogBroadcasting string string
  | LogProcessingHandler string nat
  | LogHandlerFailed "'u Handler"
  | LogProcessingChannel string nat
  | Invoked "'u Handler" Payload
  | Sent chan Payload

record 'u world =
  trace :: "'u event list"
  user :: 'u
  goroutines :: "rider list"

definition log_print :: "'u event \<Rightarrow> 'u world \<Rightarrow> 'u world" where
  "log_print e w = w\<lparr>trace := trace w @ [e]\<rparr>"

definition Log :: "'u Bus \<Rightarrow> string \<Rightarrow> 'u world \<Rightarrow> 'u world" where
  "Log b message w = log_print (LogMessage message) w"

section \<open>Posting\<close>

text \<open>
  \<open>b.pubchan <- r\<close> hands the rider to the dispatch loop. The send is taken to complete:
  the loop started by \<open>New\<close> is there to receive.
\<close>

definition Post :: "'u Bus \<Rightarrow> Payload \<Rightarrow> 'u world \<Rightarrow> error option \<times> 'u Bus \<times> 'u world" where
  "Post b p w =
     (let w1 = log_print (LogPosting (Type p)) w;
          r = \<lparr>payload = p, mode = asynchronous\<rparr>;
          b1 = b\<lparr>pubchan := pubchan b @ [r]\<rparr>
      in (None, b1, w1))"

definition PostAndWait :: "'u Bus \<Rightarrow> Payload \<Rightarrow> 'u world \<Rightarrow> error option \<times> 'u Bus \<times> 'u world" where
  "PostAndWait b p w =
     (let w1 = log_print (LogPosting (Type p)) w;
          r = \<lparr>payload = p, mode = synchronous\<rparr>;
          b1 = b\<lparr>pubchan := pubchan b @ [r]\<rparr>
      in (None, b1, w1))"

section \<open>Registration\<close>

text \<open>\<open>now\<close> is what \<open>time.Now()\<close> returns when \<open>AddHandlers\<close> is called.\<close>

definition AddHandlers ::
  "'u Bus \<Rightarrow> time \<Rightarrow> string \<Rightarrow> 'u Handler list \<Rightarrow> panic + (error option \<times> 'u Bus)" where
  "AddHandlers b now typ fns =
     (if length fns > 0 then
        (case map_set (handlers b) typ (map_get (handlers b) typ @ fns) of
           Inl e \<Rightarrow> Inl e
         | Inr m \<Rightarrow> Inr (None, b\<lparr>handlers := m\<rparr>))
      else
        (let message = ''Argument error: at least one handler must be registered.''
         in Inr (Some (ErrBus \<lparr>When = now, What = message\<rparr>), b)))"

definition AddChannel :: "'u Bus \<Rightarrow> string \<Rightarrow> chan \<Rightarrow> panic + 'u Bus" where
  "AddChannel b typ c =
     (if \<not> map_ok (subchans b) typ then
        (case map_set (subchans b) typ [c] of
           Inl e \<Rightarrow> Inl e
         | Inr m \<Rightarrow> Inr (b\<lparr>subchans := m\<rparr>))
      else
        (let sc = map_get (subchans b) typ
         in case map_set (subchans b) typ (sc @ [c]) of
              Inl e \<Rightarrow> Inl e
            | Inr m \<Rightarrow> Inr (b\<lparr>subchans := m\<rparr>)))"

text \<open>
  The single unconditional append that \<open>AddChannel\<close> is compared with:
  \<open>b.subchans[typ] = append(b.subchans[typ], c)\<close>.
\<close>

definition AddChannel_append :: "'u Bus \<Rightarrow> string \<Rightarrow> chan \<Rightarrow> panic + 'u Bus" where
  "AddChannel_append b typ c =
     (case map_set (subchans b) typ (map_get (subchans b) typ @ [c]) of
        Inl e \<Rightarrow> Inl e
      | Inr m \<Rightarrow> Inr (b\<lparr>subchans := m\<rparr>))"

section \<open>Construction\<close>

text \<open>
  \<open>New\<close> makes the channel and the two registration maps; the struct's \<open>flags\<close> field is
  not assigned and keeps its zero value, the nil map. \<open>go b.run()\<close> starts the dispatch
  loop, whose first act is to log that the bus is running. \<open>log.SetFlags\<close> sets how the
  log prints its lines, which the events do not record.
\<close>

definition New :: "'u world \<Rightarrow> 'u Bus \<times> 'u world" where
  "New w =
     (let w1 = log_print LogCreating w;
          b = \<lparr>pubchan = [], subchans = make_map, handlers = make_map, flags = None\<rparr>;
          w2 = log_print LogRunning w1
      in (b, w2))"

section \<open>Delivery and the dispatch loop\<close>

text \<open>
  One turn of the first loop of \<open>deliver\<close>: log, call the handler, log a failure.
\<close>

definition call_handler :: "string \<Rightarrow> Payload \<Rightarrow> nat \<Rightarrow> 'u Handler \<Rightarrow> 'u world \<Rightarrow> 'u world" where
  "call_handler typ p i h w =
     (let w1 = log_print (LogProcessingHandler typ i) w;
          res = h p (user w1);
          w2 = w1\<lparr>trace := trace w1 @ [Invoked h p], user := snd res\<rparr>
      in if fst res \<noteq> None then log_print (LogHandlerFailed h) w2 else w2)"

fun deliver_handlers ::
  "string \<Rightarrow> Payload \<Rightarrow> nat \<Rightarrow> 'u Handler list \<Rightarrow> 'u world \<Rightarrow> 'u world" where
  "deliver_handlers typ p i [] w = w"
| "deliver_handlers typ p i (h # hs) w =
     deliver_handlers typ p (Suc i) hs (call_handler typ p i h w)"

text \<open>
  One turn of the second loop: log, send. The send is taken to complete (the subscriber
  receives); a subscriber that never receives blocks the delivery, which the model does
  not describe.
\<close>

definition send_chan :: "string \<Rightarrow> Payload \<Rightarrow> nat \<Rightarrow> chan \<Rightarrow> 'u world \<Rightarrow> 'u world" where
  "send_chan typ p i c w =
     (let w1 = log_print (LogProcessingChannel typ i) w
      in w1\<lparr>trace := trace w1 @ [Sent c p]\<rparr>)"

fun deliver_chans ::
  "string \<Rightarrow> Payload \<Rightarrow> nat \<Rightarrow> chan list \<Rightarrow> 'u world \<Rightarrow> 'u world" where
  "deliver_chans typ p i [] w = w"
| "deliver_chans typ p i (c # cs) w =
     deliver_chans typ p (Suc i) cs (send_chan typ p i c w)"

definition deliver :: "'u Bus \<Rightarrow> rider \<Rightarrow> 'u world \<Rightarrow> 'u world" where
  "deliver b r w =
     (let typ = Type (payload r);
          w1 = deliver_handlers typ (payload r) 0 (map_get (handlers b) typ) w
      in deliver_chans typ (payload r) 0 (map_get (subchans b) typ) w1)"

definition modestring :: "'u Bus \<Rightarrow> flag \<Rightarrow> string" where
  "modestring b f =
     (if (f AND asynchronous) = asynchronous then ''asynchronously'' else ''synchronously'')"

text \<open>
  The body of the loop of \<open>run\<close>, for one rider received from \<open>pubchan\<close>:
  \<open>go b.deliver(r)\<close> adds a delivery to the goroutines that are to run, \<open>b.deliver(r)\<close>
  runs it on the spot.
\<close>

definition run_body :: "'u Bus \<Rightarrow> rider \<Rightarrow> 'u world \<Rightarrow> 'u world" where
  "run_body b r w =
     (let w1 = log_print (LogBroadcasting (Type (payload r)) (modestring b (mode r))) w
      in if mode r = asynchronous then w1\<lparr>goroutines := goroutines w1 @ [r]\<rparr>
         else deliver b r w1)"

fun run_loop :: "'u Bus \<Rightarrow> rider list \<Rightarrow> 'u world \<Rightarrow> 'u world" where
  "run_loop b [] w = w"
| "run_loop b (r # rs) w = run_loop b rs (run_body b r w)"

text \<open>
  \<open>run\<close> receives the riders of \<open>pubchan\<close> in the order they were sent. The channel is
  never closed, so the loop does not end: \<open>run\<close> here is the loop up to the moment the
  channel is drained.
\<close>

definition run :: "'u Bus \<Rightarrow> 'u world \<Rightarrow> 'u Bus \<times> 'u world" where
  "run b w = (b\<lparr>pubchan := []\<rparr>, run_loop b (pubchan b) w)"

text \<open>
  The Go runtime runs a started goroutine at some later moment: \<open>go_deliver b k w\<close> runs
  the \<open>k\<close>-th waiting delivery to its end, on the bus as it is at that moment. Deliveries
  that run at the same time interleave their events; the model runs one at a time.
\<close>

definition go_deliver :: "'u Bus \<Rightarrow> nat \<Rightarrow> 'u world \<Rightarrow> 'u world" where
  "go_deliver b k w =
     (if k < length (goroutines w)
      then deliver b (goroutines w ! k)
             (w\<lparr>goroutines := take k (goroutines w) @ drop (Suc k) (goroutines w)\<rparr>)
      else w)"

section \<open>Reading a trace\<close>

text \<open>
  \<open>emitted w w'\<close> is what was added to the trace between \<open>w\<close> and \<open>w'\<close>;
  \<open>invocations\<close> and \<open>sends\<close> pick the handler calls and the channel sends out of a
  sequence of events, \<open>failures\<close> the handlers whose failure was logged, and \<open>effects\<close>
  drops the log lines and keeps calls and sends in their order.
\<close>

definition emitted :: "'u world \<Rightarrow> 'u world \<Rightarrow> 'u event list" where
  "emitted w w' = drop (length (trace w)) (trace w')"

fun invocations :: "'u event list \<Rightarrow> ('u Handler \<times> Payload) list" where
  "invocations [] = []"
| "invocations (Invoked h p # es) = (h, p) # invocations es"
| "invocations (e # es) = invocations es"

fun sends :: "'u event list \<Rightarrow> (chan \<times> Payload) list" where
  "sends [] = []"
| "sends (Sent c p # es) = (c, p) # sends es"
| "sends (e # es) = sends es"

fun failures :: "'u event list \<Rightarrow> 'u Handler list" where
  "failures [] = []"
| "failures (LogHandlerFailed h # es) = h # failures es"
| "failures (e # es) = failures es"

fun is_effect :: "'u event \<Rightarrow> bool" where
  "is_effect (Invoked h p) = True"
| "is_effect (Sent c p) = True"
| "is_effect e = False"

definition effects :: "'u event list \<Rightarrow> 'u event list" where
  "effects es = filter is_effect es"

text \<open>
  \<open>failing p hs u\<close> are the handlers of \<open>hs\<close> that return a non-nil error when they
  are called in turn on \<open>p\<close>, the first of them in state \<open>u\<close>.
\<close>

fun failing :: "Payload \<Rightarrow> 'u Handler list \<Rightarrow> 'u \<Rightarrow> 'u Handler list" where
  "failing p [] u = []"
| "failing p (h # hs) u =
     (if fst (h p u) \<noteq> None then h # failing p hs (snd (h p u))
      else failing p hs (snd (h p u)))"

section \<open>Programs that use a bus\<close>

text \<open>
  A program around a bus is a sequence of calls of its methods, mixed with the moments
  at which the dispatch loop receives what was posted (\<open>Dispatch\<close>) and at which the
  runtime runs a waiting delivery (\<open>Go k\<close>). The error \<open>AddHandlers\<close> returns is dropped,
  as the tests of the package do; a panic ends the program.
\<close>

datatype 'u call =
    CallPost Payload
  | CallPostAndWait Payload
  | CallAddHandlers time string "'u Handler list"
  | CallAddChannel string chan
  | CallLog string
  | Dispatch
  | Go nat

fun step :: "'u call \<Rightarrow> 'u Bus \<times> 'u world \<Rightarrow> panic + ('u Bus \<times> 'u world)" where
  "step (CallPost p) (b, w) = Inr (snd (Post b p w))"
| "step (CallPostAndWait p) (b, w) = Inr (snd (PostAndWait b p w))"
| "step (CallAddHandlers now typ fns) (b, w) =
     (case AddHandlers b now typ fns of Inl e \<Rightarrow> Inl e | Inr (err, b') \<Rightarrow> Inr (b', w))"
| "step (CallAddChannel typ c) (b, w) =
     (case AddChannel b typ c of Inl e \<Rightarrow> Inl e | Inr b' \<Rightarrow> Inr (b', w))"
| "step (CallLog m) (b, w) = Inr (b, Log b m w)"
| "step Dispatch (b, w) = Inr (run b w)"
| "step (Go k) (b, w) = Inr (b, go_deliver b k w)"

fun steps :: "'u call list \<Rightarrow> 'u Bus \<times> 'u world \<Rightarrow> panic + ('u Bus \<times> 'u world)" where
  "steps [] s = Inr s"
| "steps (c # cs) s = (case step c s of Inl e \<Rightarrow> Inl e | Inr s' \<Rightarrow> steps cs s')"

text \<open>
  \<open>ready\<close>: both registration maps are there. \<open>two_modes\<close>: every rider on its way
  carries one of the two mode constants, and every delivery started as a goroutine is
  an asynchronous one.
\<close>

definition ready :: "'u Bus \<Rightarrow> bool" where
  "ready b = (subchans b \<noteq> None \<and> handlers b \<noteq> None)"

definition two_modes :: "'u Bus \<times> 'u world \<Rightarrow> bool" where
  "two_modes s =
     ((\<forall>r \<in> set (pubchan (fst s)). mode r = synchronous \<or> mode r = asynchronous)
      \<and> (\<forall>r \<in> set (goroutines (snd s)). mode r = asynchronous))"

section \<open>Values for the examples\<close>

text \<open>
  The state of the examples is the list of marks the handlers left. \<open>h_nil\<close> is a
  handler like \<open>h1\<close> to \<open>h4\<close> of the tests: it does nothing and returns nil. \<open>h_mark k\<close>
  leaves the mark \<open>k\<close> and returns nil, \<open>h_fail\<close> leaves the mark 0 and returns an error.
\<close>

definition h_nil :: "nat list Handler" where
  "h_nil p u = (None, u)"

definition h_mark :: "nat \<Rightarrow> nat list Handler" where
  "h_mark k p u = (None, u @ [k])"

definition h_fail :: "nat list Handler" where
  "h_fail p u = (Some (ErrOther ''failed''), u @ [0])"

definition world0 :: "nat list world" where
  "world0 = \<lparr>trace = [], user = [], goroutines = []\<rparr>"

definition ping :: Payload where
  "ping = \<lparr>Type = ''ping'', Data = [''n'' \<mapsto> AnyInt 1]\<rparr>"

definition bus0 :: "nat list Bus" where
  "bus0 = \<lparr>pubchan = [], subchans = Some Map.empty, handlers = Some Map.empty, flags = None\<rparr>"

section \<open>Lemmas: what the operations do to the fields of the bus\<close>

lemma AddHandlers_maps:
  "AddHandlers b now typ fns = Inr (e, b') \<Longrightarrow>
     subchans b' = subchans b \<and> flags b' = flags b \<and> pubchan b' = pubchan b
     \<and> (handlers b' = None) = (handlers b = None)"
  by (auto simp: AddHandlers_def map_set_def split: if_splits option.splits)

lemma AddHandlers_total:
  "handlers b \<noteq> None \<Longrightarrow> \<exists>e b'. AddHandlers b now typ fns = Inr (e, b')"
  by (auto simp: AddHandlers_def map_set_def split: if_splits option.splits)

lemma AddChannel_maps:
  "AddChannel b typ c = Inr b' \<Longrightarrow>
     handlers b' = handlers b \<and> flags b' = flags b \<and> pubchan b' = pubchan b
     \<and> (subchans b' = None) = (subchans b = None)"
  by (auto simp: AddChannel_def map_set_def Let_def split: if_splits option.splits)

lemma AddChannel_total:
  "subchans b \<noteq> None \<Longrightarrow> \<exists>b'. AddChannel b typ c = Inr b'"
  by (auto simp: AddChannel_def map_set_def Let_def split: if_splits option.splits)

lemma Post_maps:
  "subchans (fst (snd (Post b p w))) = subchans b \<and> handlers (fst (snd (Post b p w))) = handlers b
   \<and> flags (fst (snd (Post b p w))) = flags b"
  by (simp add: Post_def)

lemma PostAndWait_maps:
  "subchans (fst (snd (PostAndWait b p w))) = subchans b
   \<and> handlers (fst (snd (PostAndWait b p w))) = handlers b
   \<and> flags (fst (snd (PostAndWait b p w))) = flags b"
  by (simp add: PostAndWait_def)

lemma run_maps:
  "subchans (fst (run b w)) = subchans b \<and> handlers (fst (run b w)) = handlers b
   \<and> flags (fst (run b w)) = flags b"
  by (simp add: run_def)

lemma step_ready:
  "ready b \<Longrightarrow> \<exists>s'. step c (b, w) = Inr s' \<and> ready (fst s')"
proof (cases c)
  case (CallAddHandlers now ty fns)
  assume r: "ready b"
  then obtain e b' where a: "AddHandlers b now ty fns = Inr (e, b')"
    using AddHandlers_total[of b now ty fns] by (auto simp: ready_def)
  with r AddHandlers_maps[OF a] show ?thesis
    by (auto simp: CallAddHandlers ready_def)
next
  case (CallAddChannel ty ch)
  assume r: "ready b"
  then obtain b' where a: "AddChannel b ty ch = Inr b'"
    using AddChannel_total[of b ty ch] by (auto simp: ready_def)
  with r AddChannel_maps[OF a] show ?thesis
    by (auto simp: CallAddChannel ready_def)
qed (simp_all add: ready_def Post_def PostAndWait_def run_def)

lemma steps_ready:
  "ready (fst s) \<Longrightarrow> \<exists>s'. steps cs s = Inr s' \<and> ready (fst s')"
proof (induction cs arbitrary: s)
  case Nil
  then show ?case by simp
next
  case (Cons c cs)
  from step_ready[of "fst s" c "snd s"] Cons.prems obtain s1
    where s: "step c s = Inr s1" and r: "ready (fst s1)" by auto
  from Cons.IH[OF r] s show ?case by simp
qed

lemma New_ready: "ready (fst (New w))"
  by (simp add: New_def ready_def make_map_def)

lemma AddHandlers_entries:
  "AddHandlers b now typ fns = Inr (e, b') \<Longrightarrow> t \<noteq> typ \<Longrightarrow>
     map_entry (handlers b') t = map_entry (handlers b) t"
  by (auto simp: AddHandlers_def map_set_def map_entry_def split: if_splits option.splits)

lemma AddChannel_entries:
  "AddChannel b typ c = Inr b' \<Longrightarrow> t \<noteq> typ \<Longrightarrow>
     map_entry (subchans b') t = map_entry (subchans b) t"
  by (auto simp: AddChannel_def map_set_def map_entry_def Let_def split: if_splits option.splits)

lemma AddHandlers_appends:
  "fns \<noteq> [] \<Longrightarrow> handlers b = Some m \<Longrightarrow>
     AddHandlers b now typ fns = Inr (None, b\<lparr>handlers := Some (m(typ \<mapsto> map_get (Some m) typ @ fns))\<rparr>)"
  by (simp add: AddHandlers_def map_set_def)

section \<open>Lemmas: the events of a delivery\<close>

lemma emitted_append: "trace w' = trace w @ es \<Longrightarrow> emitted w w' = es"
  by (simp add: emitted_def)

lemma effects_append [simp]: "effects (xs @ ys) = effects xs @ effects ys"
  by (simp add: effects_def)

lemma invocations_append [simp]: "invocations (xs @ ys) = invocations xs @ invocations ys"
  by (induction xs rule: invocations.induct) simp_all

lemma sends_append [simp]: "sends (xs @ ys) = sends xs @ sends ys"
  by (induction xs rule: sends.induct) simp_all

lemma failures_append [simp]: "failures (xs @ ys) = failures xs @ failures ys"
  by (induction xs rule: failures.induct) simp_all

lemma call_handler_trace:
  "trace (call_handler typ p i h w) =
     trace w @ LogProcessingHandler typ i # Invoked h p #
       (if fst (h p (user w)) \<noteq> None then [LogHandlerFailed h] else [])"
  by (simp add: call_handler_def log_print_def Let_def)

lemma call_handler_user: "user (call_handler typ p i h w) = snd (h p (user w))"
  by (simp add: call_handler_def log_print_def Let_def)

lemma call_handler_goroutines: "goroutines (call_handler typ p i h w) = goroutines w"
  by (simp add: call_handler_def log_print_def Let_def)

lemma send_chan_trace:
  "trace (send_chan typ p i c w) = trace w @ [LogProcessingChannel typ i, Sent c p]"
  by (simp add: send_chan_def log_print_def Let_def)

lemma send_chan_user: "user (send_chan typ p i c w) = user w"
  by (simp add: send_chan_def log_print_def Let_def)

lemma send_chan_goroutines: "goroutines (send_chan typ p i c w) = goroutines w"
  by (simp add: send_chan_def log_print_def Let_def)

lemma deliver_handlers_trace:
  "\<exists>es. trace (deliver_handlers typ p i hs w) = trace w @ es
      \<and> effects es = map (\<lambda>h. Invoked h p) hs
      \<and> invocations es = map (\<lambda>h. (h, p)) hs
      \<and> sends es = []
      \<and> failures es = failing p hs (user w)"
proof (induction hs arbitrary: i w)
  case Nil
  show ?case by (simp add: effects_def)
next
  case (Cons h hs)
  obtain es where es: "trace (deliver_handlers typ p (Suc i) hs (call_handler typ p i h w))
        = trace (call_handler typ p i h w) @ es"
      "effects es = map (\<lambda>h. Invoked h p) hs"
      "invocations es = map (\<lambda>h. (h, p)) hs" "sends es = []"
      "failures es = failing p hs (user (call_handler typ p i h w))"
    using Cons.IH[of "Suc i" "call_handler typ p i h w"] by blast
  let ?fs = "LogProcessingHandler typ i # Invoked h p #
       (if fst (h p (user w)) \<noteq> None then [LogHandlerFailed h] else [])"
  have "trace (deliver_handlers typ p i (h # hs) w) = trace w @ (?fs @ es)"
    using es(1) by (simp add: call_handler_trace)
  moreover have "effects (?fs @ es) = map (\<lambda>h. Invoked h p) (h # hs)"
    using es(2) by (simp add: effects_def)
  moreover have "invocations (?fs @ es) = map (\<lambda>h. (h, p)) (h # hs)"
    using es(3) by simp
  moreover have "sends (?fs @ es) = []"
    using es(4) by simp
  moreover have "failures (?fs @ es) = failing p (h # hs) (user w)"
    using es(5) by (simp add: call_handler_user)
  ultimately show ?case by blast
qed

lemma deliver_handlers_user:
  "user (deliver_handlers typ p i hs w) = foldl (\<lambda>u h. snd (h p u)) (user w) hs"
  by (induction hs arbitrary: i w) (simp_all add: call_handler_user)

lemma deliver_handlers_goroutines:
  "goroutines (deliver_handlers typ p i hs w) = goroutines w"
  by (induction hs arbitrary: i w) (simp_all add: call_handler_goroutines)

lemma deliver_chans_trace:
  "\<exists>es. trace (deliver_chans typ p i cs w) = trace w @ es
      \<and> effects es = map (\<lambda>c. Sent c p) cs
      \<and> invocations es = []
      \<and> sends es = map (\<lambda>c. (c, p)) cs
      \<and> failures es = []"
proof (induction cs arbitrary: i w)
  case Nil
  show ?case by (simp add: effects_def)
next
  case (Cons c cs)
  obtain es where es: "trace (deliver_chans typ p (Suc i) cs (send_chan typ p i c w))
        = trace (send_chan typ p i c w) @ es"
      "effects es = map (\<lambda>c. Sent c p) cs"
      "invocations es = []" "sends es = map (\<lambda>c. (c, p)) cs" "failures es = []"
    using Cons.IH[of "Suc i" "send_chan typ p i c w"] by blast
  let ?fs = "[LogProcessingChannel typ i, Sent c p]"
  have "trace (deliver_chans typ p i (c # cs) w) = trace w @ (?fs @ es)"
    using es(1) by (simp add: send_chan_trace)
  moreover have "effects (?fs @ es) = map (\<lambda>c. Sent c p) (c # cs)"
    using es(2) by (simp add: effects_def)
  moreover have "invocations (?fs @ es) = []" using es(3) by simp
  moreover have "sends (?fs @ es) = map (\<lambda>c. (c, p)) (c # cs)" using es(4) by simp
  moreover have "failures (?fs @ es) = []" using es(5) by simp
  ultimately show ?case by blast
qed

lemma deliver_chans_user: "user (deliver_chans typ p i cs w) = user w"
  by (induction cs arbitrary: i w) (simp_all add: send_chan_user)

lemma deliver_chans_goroutines: "goroutines (deliver_chans typ p i cs w) = goroutines w"
  by (induction cs arbitrary: i w) (simp_all add: send_chan_goroutines)

lemma deliver_trace:
  "\<exists>es. trace (deliver b r w) = trace w @ es
      \<and> effects es = map (\<lambda>h. Invoked h (payload r)) (map_get (handlers b) (Type (payload r)))
                     @ map (\<lambda>c. Sent c (payload r)) (map_get (subchans b) (Type (payload r)))
      \<and> invocations es = map (\<lambda>h. (h, payload r)) (map_get (handlers b) (Type (payload r)))
      \<and> sends es = map (\<lambda>c. (c, payload r)) (map_get (subchans b) (Type (payload r)))
      \<and> failures es = failing (payload r) (map_get (handlers b) (Type (payload r))) (user w)"
proof -
  let ?ty = "Type (payload r)" and ?p = "payload r"
  let ?w1 = "deliver_handlers ?ty ?p 0 (map_get (handlers b) ?ty) w"
  obtain es1 where es1: "trace ?w1 = trace w @ es1"
      "effects es1 = map (\<lambda>h. Invoked h ?p) (map_get (handlers b) ?ty)"
      "invocations es1 = map (\<lambda>h. (h, ?p)) (map_get (handlers b) ?ty)" "sends es1 = []"
      "failures es1 = failing ?p (map_get (handlers b) ?ty) (user w)"
    using deliver_handlers_trace[of ?ty ?p 0 "map_get (handlers b) ?ty" w] by blast
  obtain es2 where es2: "trace (deliver b r w) = trace ?w1 @ es2"
      "effects es2 = map (\<lambda>c. Sent c ?p) (map_get (subchans b) ?ty)"
      "invocations es2 = []" "sends es2 = map (\<lambda>c. (c, ?p)) (map_get (subchans b) ?ty)"
      "failures es2 = []"
    using deliver_chans_trace[of ?ty ?p 0 "map_get (subchans b) ?ty" ?w1]
    by (auto simp: deliver_def Let_def)
  have "trace (deliver b r w) = trace w @ (es1 @ es2)"
    using es1(1) es2(1) by simp
  moreover have "effects (es1 @ es2) = map (\<lambda>h. Invoked h ?p) (map_get (handlers b) ?ty)
                     @ map (\<lambda>c. Sent c ?p) (map_get (subchans b) ?ty)"
    using es1(2) es2(2) by simp
  moreover have "invocations (es1 @ es2) = map (\<lambda>h. (h, ?p)) (map_get (handlers b) ?ty)"
    using es1(3) es2(3) by simp
  moreover have "sends (es1 @ es2) = map (\<lambda>c. (c, ?p)) (map_get (subchans b) ?ty)"
    using es1(4) es2(4) by simp
  moreover have "failures (es1 @ es2) = failing ?p (map_get (handlers b) ?ty) (user w)"
    using es1(5) es2(5) by simp
  ultimately show ?thesis by blast
qed

lemma deliver_user:
  "user (deliver b r w) =
     foldl (\<lambda>u h. snd (h (payload r) u)) (user w) (map_get (handlers b) (Type (payload r)))"
  by (simp add: deliver_def Let_def deliver_chans_user deliver_handlers_user)

lemma deliver_goroutines: "goroutines (deliver b r w) = goroutines w"
  by (simp add: deliver_def Let_def deliver_chans_goroutines deliver_handlers_goroutines)

lemma deliver_emitted:
  "effects (emitted w (deliver b r w)) =
       map (\<lambda>h. Invoked h (payload r)) (map_get (handlers b) (Type (payload r)))
       @ map (\<lambda>c. Sent c (payload r)) (map_get (subchans b) (Type (payload r)))"
  "invocations (emitted w (deliver b r w)) =
       map (\<lambda>h. (h, payload r)) (map_get (handlers b) (Type (payload r)))"
  "sends (emitted w (deliver b r w)) =
       map (\<lambda>c. (c, payload r)) (map_get (subchans b) (Type (payload r)))"
  "failures (emitted w (deliver b r w)) =
       failing (payload r) (map_get (handlers b) (Type (payload r))) (user w)"
  "trace (deliver b r w) = trace w @ emitted w (deliver b r w)"
proof -
  obtain es where es: "trace (deliver b r w) = trace w @ es"
      "effects es = map (\<lambda>h. Invoked h (payload r)) (map_get (handlers b) (Type (payload r)))
                     @ map (\<lambda>c. Sent c (payload r)) (map_get (subchans b) (Type (payload r)))"
      "invocations es = map (\<lambda>h. (h, payload r)) (map_get (handlers b) (Type (payload r)))"
      "sends es = map (\<lambda>c. (c, payload r)) (map_get (subchans b) (Type (payload r)))"
      "failures es = failing (payload r) (map_get (handlers b) (Type (payload r))) (user w)"
    using deliver_trace[of b r w] by blast
  have e: "emitted w (deliver b r w) = es"
    using es(1) by (rule emitted_append)
  show "effects (emitted w (deliver b r w)) =
       map (\<lambda>h. Invoked h (payload r)) (map_get (handlers b) (Type (payload r)))
       @ map (\<lambda>c. Sent c (payload r)) (map_get (subchans b) (Type (payload r)))"
    unfolding e by (rule es(2))
  show "invocations (emitted w (deliver b r w)) =
       map (\<lambda>h. (h, payload r)) (map_get (handlers b) (Type (payload r)))"
    unfolding e by (rule es(3))
  show "sends (emitted w (deliver b r w)) =
       map (\<lambda>c. (c, payload r)) (map_get (subchans b) (Type (payload r)))"
    unfolding e by (rule es(4))
  show "failures (emitted w (deliver b r w)) =
       failing (payload r) (map_get (handlers b) (Type (payload r))) (user w)"
    unfolding e by (rule es(5))
  show "trace (deliver b r w) = trace w @ emitted w (deliver b r w)"
    unfolding e by (rule es(1))
qed

lemma count_list_with_payload:
  "count_list (map (\<lambda>h. (h, p)) hs) (h, p) = count_list hs h"
  by (induction hs) simp_all

lemma go_deliver_last:
  "goroutines w1 = gs @ [r] \<Longrightarrow>
     go_deliver b (length gs) w1 = deliver b r (w1\<lparr>goroutines := gs\<rparr>)"
  by (simp add: go_deliver_def nth_append)

lemma emitted_same_trace: "trace w0 = trace w \<Longrightarrow> emitted w0 w' = emitted w w'"
  by (simp add: emitted_def)

section \<open>Lemmas: the modes of the riders\<close>

lemma run_body_goroutines:
  "goroutines (run_body b r w) =
     (if mode r = asynchronous then goroutines w @ [r] else goroutines w)"
  by (simp add: run_body_def Let_def log_print_def deliver_goroutines)

lemma run_loop_goroutines:
  "\<forall>r \<in> set (goroutines w). mode r = asynchronous \<Longrightarrow>
   \<forall>r \<in> set (goroutines (run_loop b rs w)). mode r = asynchronous"
proof (induction rs arbitrary: w)
  case Nil
  then show ?case by simp
next
  case (Cons r rs)
  have "\<forall>x \<in> set (goroutines (run_body b r w)). mode x = asynchronous"
    using Cons.prems by (simp add: run_body_goroutines)
  from Cons.IH[OF this] show ?case by simp
qed

lemma go_deliver_goroutines:
  "\<forall>r \<in> set (goroutines w). mode r = asynchronous \<Longrightarrow>
   \<forall>r \<in> set (goroutines (go_deliver b k w)). mode r = asynchronous"
  by (auto simp: go_deliver_def deliver_goroutines dest: in_set_takeD in_set_dropD)

lemma step_two_modes:
  "two_modes s \<Longrightarrow> step c s = Inr s' \<Longrightarrow> two_modes s'"
proof (cases s)
  case (Pair b w)
  assume t: "two_modes s" and st: "step c s = Inr s'"
  show ?thesis
  proof (cases c)
    case (CallPost p)
    with t st Pair show ?thesis by (auto simp: two_modes_def Post_def log_print_def)
  next
    case (CallPostAndWait p)
    with t st Pair show ?thesis by (auto simp: two_modes_def PostAndWait_def log_print_def)
  next
    case (CallAddHandlers now ty fns)
    with st Pair obtain e b1 where a: "AddHandlers b now ty fns = Inr (e, b1)"
      and s': "s' = (b1, w)" by (auto split: sum.splits)
    from AddHandlers_maps[OF a] t Pair s' show ?thesis by (simp add: two_modes_def)
  next
    case (CallAddChannel ty ch)
    with st Pair obtain b1 where a: "AddChannel b ty ch = Inr b1"
      and s': "s' = (b1, w)" by (auto split: sum.splits)
    from AddChannel_maps[OF a] t Pair s' show ?thesis by (simp add: two_modes_def)
  next
    case (CallLog m)
    with t st Pair show ?thesis by (auto simp: two_modes_def Log_def log_print_def)
  next
    case Dispatch
    with t st Pair run_loop_goroutines[of w b "pubchan b"] show ?thesis
      by (auto simp: two_modes_def run_def)
  next
    case (Go k)
    with t st Pair go_deliver_goroutines[of w b k] show ?thesis
      by (auto simp: two_modes_def)
  qed
qed

lemma steps_two_modes:
  "two_modes s \<Longrightarrow> steps cs s = Inr s' \<Longrightarrow> two_modes s'"
proof (induction cs arbitrary: s)
  case Nil
  then show ?case by simp
next
  case (Cons c cs)
  then show ?case by (auto split: sum.splits dest: step_two_modes)
qed

lemma New_two_modes: "goroutines w = [] \<Longrightarrow> two_modes (New w)"
  by (simp add: New_def two_modes_def log_print_def)

lemma modestring_values:
  "modestring b asynchronous = ''asynchronously''" "modestring b synchronous = ''synchronously''"
  by (simp_all add: modestring_def synchronous_def asynchronous_def)

lemma flag_values:
  "synchronous = 1" "asynchronous = 2" "synchronous \<noteq> asynchronous"
  "synchronous AND asynchronous = 0"
  by (simp_all add: synchronous_def asynchronous_def)

section \<open>Every handler once, in the order of registration\<close>

text \<open>
  C1. Delivering a rider calls the handlers registered for the type of its payload, each
  once and in the order of registration: the calls made during the delivery are the
  handlers of the type, in their order, each on the payload, and the state the handlers
  work on is the result of running them in that order. The mode of the rider plays no
  part in \<open>deliver\<close>. For a synchronous rider the dispatch loop makes these calls on the
  spot. For an asynchronous rider the loop makes no call and starts a goroutine, and the
  goroutine, when it runs, makes these calls, with the handlers registered at that
  moment.
\<close>

theorem deliver_calls_handlers_in_order:
  "invocations (emitted w (deliver b r w)) =
     map (\<lambda>h. (h, payload r)) (map_get (handlers b) (Type (payload r)))
   \<and> user (deliver b r w) =
     foldl (\<lambda>u h. snd (h (payload r) u)) (user w) (map_get (handlers b) (Type (payload r)))
   \<and> invocations (emitted w (run_body b \<lparr>payload = p, mode = synchronous\<rparr> w)) =
     map (\<lambda>h. (h, p)) (map_get (handlers b) (Type p))
   \<and> invocations (emitted w (run_body b \<lparr>payload = p, mode = asynchronous\<rparr> w)) = []
   \<and> goroutines (run_body b \<lparr>payload = p, mode = asynchronous\<rparr> w) =
     goroutines w @ [\<lparr>payload = p, mode = asynchronous\<rparr>]
   \<and> invocations (emitted (run_body b \<lparr>payload = p, mode = asynchronous\<rparr> w)
        (go_deliver b' (length (goroutines w))
           (run_body b \<lparr>payload = p, mode = asynchronous\<rparr> w))) =
     map (\<lambda>h. (h, p)) (map_get (handlers b') (Type p))"
proof -
  let ?s = "\<lparr>payload = p, mode = synchronous\<rparr>" and ?a = "\<lparr>payload = p, mode = asynchronous\<rparr>"
  let ?ls = "log_print (LogBroadcasting (Type p) (modestring b synchronous)) w"
  have sync: "run_body b ?s w = deliver b ?s ?ls"
    by (simp add: run_body_def Let_def flag_values(3))
  have "trace (deliver b ?s ?ls) = trace w @ (LogBroadcasting (Type p) (modestring b synchronous)
          # emitted ?ls (deliver b ?s ?ls))"
    using deliver_emitted(5)[of b ?s ?ls] by (simp add: log_print_def)
  then have "emitted w (run_body b ?s w) = LogBroadcasting (Type p) (modestring b synchronous)
          # emitted ?ls (deliver b ?s ?ls)"
    unfolding sync by (rule emitted_append)
  then have c3: "invocations (emitted w (run_body b ?s w)) =
      map (\<lambda>h. (h, p)) (map_get (handlers b) (Type p))"
    by (simp add: deliver_emitted(2))
  let ?w1 = "run_body b ?a w"
  have async: "?w1 = (log_print (LogBroadcasting (Type p) (modestring b asynchronous)) w)
          \<lparr>goroutines := goroutines w @ [?a]\<rparr>"
    by (simp add: run_body_def Let_def log_print_def)
  have c4: "invocations (emitted w ?w1) = []"
    by (simp add: async log_print_def emitted_def)
  have c5: "goroutines ?w1 = goroutines w @ [?a]"
    by (simp add: async log_print_def)
  let ?w2 = "?w1\<lparr>goroutines := goroutines w\<rparr>"
  have g: "go_deliver b' (length (goroutines w)) ?w1 = deliver b' ?a ?w2"
    using c5 by (rule go_deliver_last)
  have "emitted ?w1 (deliver b' ?a ?w2) = emitted ?w2 (deliver b' ?a ?w2)"
    by (rule emitted_same_trace) simp
  then have c6: "invocations (emitted ?w1 (go_deliver b' (length (goroutines w)) ?w1)) =
      map (\<lambda>h. (h, p)) (map_get (handlers b') (Type p))"
    unfolding g using deliver_emitted(2)[of ?w2 b' ?a] by simp
  show ?thesis
    by (intro conjI deliver_emitted(2) deliver_user c3 c4 c5 c6)
qed

text \<open>
  An instance: three handlers that leave the marks 1, 2 and 3 are registered for \<open>ping\<close>
  in this order. A delivery calls them in this order and leaves the marks in this order.
\<close>

theorem deliver_calls_handlers_in_order_witness:
  "invocations (emitted world0
       (deliver (bus0\<lparr>handlers := Some [''ping'' \<mapsto> [h_mark 1, h_mark 2, h_mark 3]]\<rparr>)
          \<lparr>payload = ping, mode = asynchronous\<rparr> world0))
     = [(h_mark 1, ping), (h_mark 2, ping), (h_mark 3, ping)]
   \<and> user (deliver (bus0\<lparr>handlers := Some [''ping'' \<mapsto> [h_mark 1, h_mark 2, h_mark 3]]\<rparr>)
          \<lparr>payload = ping, mode = asynchronous\<rparr> world0) = [1, 2, 3]"
  using deliver_calls_handlers_in_order [of world0
      "bus0\<lparr>handlers := Some [''ping'' \<mapsto> [h_mark 1, h_mark 2, h_mark 3]]\<rparr>"
      "\<lparr>payload = ping, mode = asynchronous\<rparr>" ping
      "bus0\<lparr>handlers := Some [''ping'' \<mapsto> [h_mark 1, h_mark 2, h_mark 3]]\<rparr>"]
  by (simp add: bus0_def world0_def ping_def map_get_def map_entry_def h_mark_def)

section \<open>Registering no handlers\<close>

text \<open>
  C2. \<open>AddHandlers\<close> with a type name and no handlers returns a non-nil error, the
  argument error that carries the time of the call and the message, and leaves the bus
  as it was: the handlers of that type and of every other type, and every other field.
  The text of the error ends with the message. On a new bus the type has no entry before
  the call and none after it.
\<close>

theorem AddHandlers_none:
  "AddHandlers b now typ [] =
     Inr (Some (ErrBus \<lparr>When = now,
                        What = ''Argument error: at least one handler must be registered.''\<rparr>), b)
   \<and> suffix ''Argument error: at least one handler must be registered.''
        (Error fmt_time \<lparr>When = now,
                         What = ''Argument error: at least one handler must be registered.''\<rparr>)
   \<and> map_entry (handlers (fst (New w))) typ = None
   \<and> map_entry (handlers (snd (projr (AddHandlers (fst (New w)) now typ [])))) typ = None"
  by (simp add: AddHandlers_def Error_def suffix_def New_def make_map_def map_entry_def
      log_print_def)

section \<open>A failing handler\<close>

text \<open>
  C3. Whatever the handlers return, a delivery calls every handler registered for the
  type and then sends the payload on every channel registered for it. The handlers that
  return a non-nil error are the ones whose failure is logged, in their order, and that
  is all that happens to the error: the delivery goes on, and \<open>Post\<close> and \<open>PostAndWait\<close>
  return nil.
\<close>

theorem handler_error_logged_only:
  "effects (emitted w (deliver b r w)) =
       map (\<lambda>h. Invoked h (payload r)) (map_get (handlers b) (Type (payload r)))
       @ map (\<lambda>c. Sent c (payload r)) (map_get (subchans b) (Type (payload r)))
   \<and> sends (emitted w (deliver b r w)) =
       map (\<lambda>c. (c, payload r)) (map_get (subchans b) (Type (payload r)))
   \<and> failures (emitted w (deliver b r w)) =
       failing (payload r) (map_get (handlers b) (Type (payload r))) (user w)
   \<and> fst (Post b p w) = None \<and> fst (PostAndWait b p w) = None
   \<and> fst (Post (fst (run b w)) p (snd (run b w))) = None
   \<and> fst (PostAndWait (fst (run b w)) p (snd (run b w))) = None"
proof -
  have p: "\<And>b' w'. fst (Post b' p w') = None" "\<And>b' w'. fst (PostAndWait b' p w') = None"
    by (simp_all add: Post_def PostAndWait_def)
  show ?thesis
    by (intro conjI deliver_emitted(1) deliver_emitted(3) deliver_emitted(4) p)
qed

text \<open>
  An instance: for \<open>ping\<close> a handler that leaves the mark 1, a handler that fails and a
  handler that leaves the mark 2 are registered, and the channel 7. The second handler
  returns an error; the failure is logged, the third handler is called and the channel
  receives the payload.
\<close>

theorem handler_error_logged_only_witness:
  "fst (h_fail ping [1]) = Some (ErrOther ''failed'')
   \<and> trace (deliver (bus0\<lparr>subchans := Some [''ping'' \<mapsto> [7]],
                           handlers := Some [''ping'' \<mapsto> [h_mark 1, h_fail, h_mark 2]]\<rparr>)
          \<lparr>payload = ping, mode = synchronous\<rparr> world0)
     = [LogProcessingHandler ''ping'' 0, Invoked (h_mark 1) ping,
        LogProcessingHandler ''ping'' 1, Invoked h_fail ping, LogHandlerFailed h_fail,
        LogProcessingHandler ''ping'' 2, Invoked (h_mark 2) ping,
        LogProcessingChannel ''ping'' 0, Sent 7 ping]
   \<and> effects (emitted world0 (deliver (bus0\<lparr>subchans := Some [''ping'' \<mapsto> [7]],
                           handlers := Some [''ping'' \<mapsto> [h_mark 1, h_fail, h_mark 2]]\<rparr>)
          \<lparr>payload = ping, mode = synchronous\<rparr> world0))
     = [Invoked (h_mark 1) ping, Invoked h_fail ping, Invoked (h_mark 2) ping, Sent 7 ping]
   \<and> failures (emitted world0 (deliver (bus0\<lparr>subchans := Some [''ping'' \<mapsto> [7]],
                           handlers := Some [''ping'' \<mapsto> [h_mark 1, h_fail, h_mark 2]]\<rparr>)
          \<lparr>payload = ping, mode = synchronous\<rparr> world0))
     = [h_fail]"
  using handler_error_logged_only [of world0
      "bus0\<lparr>subchans := Some [''ping'' \<mapsto> [7]],
                           handlers := Some [''ping'' \<mapsto> [h_mark 1, h_fail, h_mark 2]]\<rparr>"
      "\<lparr>payload = ping, mode = synchronous\<rparr>" ping]
  by (simp add: bus0_def world0_def ping_def map_get_def map_entry_def h_mark_def h_fail_def
      deliver_def call_handler_def send_chan_def log_print_def Let_def emitted_def effects_def)

section \<open>Handlers first, then channels\<close>

text \<open>
  C4. The calls and sends of one delivery are: a call of each handler registered for the
  type of the payload, in the order of registration, and after all of them a send on each
  channel registered for the type, in the order of registration. When neither a handler
  nor a channel is registered for the type, the delivery does nothing: the world after it
  is the world before it, and there is no error to raise, \<open>deliver\<close> having no result.
\<close>

theorem deliver_handlers_then_channels:
  "effects (emitted w (deliver b r w)) =
       map (\<lambda>h. Invoked h (payload r)) (map_get (handlers b) (Type (payload r)))
       @ map (\<lambda>c. Sent c (payload r)) (map_get (subchans b) (Type (payload r)))
   \<and> sends (emitted w (deliver b r w)) =
       map (\<lambda>c. (c, payload r)) (map_get (subchans b) (Type (payload r)))
   \<and> (map_get (handlers b) (Type (payload r)) = []
        \<and> map_get (subchans b) (Type (payload r)) = [] \<longrightarrow> deliver b r w = w)"
proof -
  have "map_get (handlers b) (Type (payload r)) = []
        \<and> map_get (subchans b) (Type (payload r)) = [] \<longrightarrow> deliver b r w = w"
    by (simp add: deliver_def Let_def)
  then show ?thesis
    by (intro conjI deliver_emitted(1) deliver_emitted(3))
qed

text \<open>
  An instance: on a bus with two handlers and two channels for \<open>ping\<close>, a delivery of a
  \<open>ping\<close> calls the two handlers and then sends on the two channels, and a delivery of a
  payload of the type \<open>pong\<close>, for which nothing is registered, changes nothing.
\<close>

theorem deliver_handlers_then_channels_witness:
  "map_get (handlers (bus0\<lparr>subchans := Some [''ping'' \<mapsto> [7, 8]],
                           handlers := Some [''ping'' \<mapsto> [h_mark 1, h_mark 2]]\<rparr>)) ''pong'' = []
   \<and> map_get (subchans (bus0\<lparr>subchans := Some [''ping'' \<mapsto> [7, 8]],
                           handlers := Some [''ping'' \<mapsto> [h_mark 1, h_mark 2]]\<rparr>)) ''pong'' = []
   \<and> deliver (bus0\<lparr>subchans := Some [''ping'' \<mapsto> [7, 8]],
                           handlers := Some [''ping'' \<mapsto> [h_mark 1, h_mark 2]]\<rparr>)
        \<lparr>payload = \<lparr>Type = ''pong'', Data = Map.empty\<rparr>, mode = asynchronous\<rparr> world0 = world0
   \<and> trace (deliver (bus0\<lparr>subchans := Some [''ping'' \<mapsto> [7, 8]],
                           handlers := Some [''ping'' \<mapsto> [h_mark 1, h_mark 2]]\<rparr>)
        \<lparr>payload = ping, mode = asynchronous\<rparr> world0)
     = [LogProcessingHandler ''ping'' 0, Invoked (h_mark 1) ping,
        LogProcessingHandler ''ping'' 1, Invoked (h_mark 2) ping,
        LogProcessingChannel ''ping'' 0, Sent 7 ping,
        LogProcessingChannel ''ping'' 1, Sent 8 ping]"
  using deliver_handlers_then_channels [of world0
      "bus0\<lparr>subchans := Some [''ping'' \<mapsto> [7, 8]],
                           handlers := Some [''ping'' \<mapsto> [h_mark 1, h_mark 2]]\<rparr>"
      "\<lparr>payload = \<lparr>Type = ''pong'', Data = Map.empty\<rparr>, mode = asynchronous\<rparr>"]
  by (simp add: bus0_def world0_def ping_def map_get_def map_entry_def h_mark_def
      deliver_def call_handler_def send_chan_def log_print_def Let_def emitted_def effects_def)

section \<open>Registration adds up\<close>

text \<open>
  C5. On a bus whose map of handlers is there, \<open>AddHandlers\<close> with at least one handler
  returns nil and appends the handlers it is given to the handlers of the type: the
  sequence after the call is the sequence before it followed by the new handlers, so its
  length is the sum of the two lengths (one handler, then three more: four), and a handler
  occurs in it as often as in the old sequence and in the new handlers taken together.
  Nothing is left out as a duplicate. A delivery of a payload of the type calls a handler
  as often as it occurs in the sequence.
\<close>

theorem AddHandlers_cumulative:
  "(fns \<noteq> [] \<longrightarrow> handlers b \<noteq> None \<longrightarrow>
      (\<exists>b'. AddHandlers b now ty fns = Inr (None, b')
         \<and> map_get (handlers b') ty = map_get (handlers b) ty @ fns
         \<and> length (map_get (handlers b') ty) = length (map_get (handlers b) ty) + length fns
         \<and> count_list (map_get (handlers b') ty) h
             = count_list (map_get (handlers b) ty) h + count_list fns h))
   \<and> count_list (invocations (emitted w (deliver b0 r w))) (h, payload r)
       = count_list (map_get (handlers b0) (Type (payload r))) h"
proof -
  have a: "fns \<noteq> [] \<longrightarrow> handlers b \<noteq> None \<longrightarrow>
      (\<exists>b'. AddHandlers b now ty fns = Inr (None, b')
         \<and> map_get (handlers b') ty = map_get (handlers b) ty @ fns
         \<and> length (map_get (handlers b') ty) = length (map_get (handlers b) ty) + length fns
         \<and> count_list (map_get (handlers b') ty) h
             = count_list (map_get (handlers b) ty) h + count_list fns h)"
  proof (intro impI)
    assume f: "fns \<noteq> []" and n: "handlers b \<noteq> None"
    then obtain m where m: "handlers b = Some m" by auto
    let ?b' = "b\<lparr>handlers := Some (m(ty \<mapsto> map_get (Some m) ty @ fns))\<rparr>"
    have g: "map_get (handlers ?b') ty = map_get (handlers b) ty @ fns"
      by (simp add: m map_get_def map_entry_def)
    have "AddHandlers b now ty fns = Inr (None, ?b')"
      using f m by (rule AddHandlers_appends)
    moreover have "length (map_get (handlers ?b') ty) = length (map_get (handlers b) ty) + length fns"
      unfolding g by simp
    moreover have "count_list (map_get (handlers ?b') ty) h
             = count_list (map_get (handlers b) ty) h + count_list fns h"
      unfolding g by simp
    ultimately show "\<exists>b'. AddHandlers b now ty fns = Inr (None, b')
         \<and> map_get (handlers b') ty = map_get (handlers b) ty @ fns
         \<and> length (map_get (handlers b') ty) = length (map_get (handlers b) ty) + length fns
         \<and> count_list (map_get (handlers b') ty) h
             = count_list (map_get (handlers b) ty) h + count_list fns h"
      using g by blast
  qed
  have c: "count_list (invocations (emitted w (deliver b0 r w))) (h, payload r)
       = count_list (map_get (handlers b0) (Type (payload r))) h"
    by (simp add: deliver_emitted(2) count_list_with_payload)
  show ?thesis
    by (intro conjI a c)
qed

text \<open>
  An instance, after \<open>TestAddHandlers\<close>: on a new bus one handler is registered for
  \<open>testName\<close> and then three more. The four handlers of the test do the same, so one
  handler is registered four times: the type has four handlers, and a delivery calls the
  handler four times.
\<close>

theorem AddHandlers_cumulative_witness:
  "AddHandlers (fst (New world0)) 1 ''testName'' [h_nil]
     = Inr (None, bus0\<lparr>handlers := Some [''testName'' \<mapsto> [h_nil]]\<rparr>)
   \<and> [h_nil, h_nil, h_nil] \<noteq> [] \<and> handlers (bus0\<lparr>handlers := Some [''testName'' \<mapsto> [h_nil]]\<rparr>) \<noteq> None
   \<and> AddHandlers (bus0\<lparr>handlers := Some [''testName'' \<mapsto> [h_nil]]\<rparr>) 2 ''testName''
       [h_nil, h_nil, h_nil]
     = Inr (None, bus0\<lparr>handlers := Some [''testName'' \<mapsto> [h_nil, h_nil, h_nil, h_nil]]\<rparr>)
   \<and> length (map_get (handlers (bus0\<lparr>handlers := Some [''testName'' \<mapsto> [h_nil]]\<rparr>)) ''testName'') = 1
   \<and> length (map_get (handlers
         (bus0\<lparr>handlers := Some [''testName'' \<mapsto> [h_nil, h_nil, h_nil, h_nil]]\<rparr>)) ''testName'') = 4
   \<and> count_list (invocations (emitted world0
         (deliver (bus0\<lparr>handlers := Some [''testName'' \<mapsto> [h_nil, h_nil, h_nil, h_nil]]\<rparr>)
            \<lparr>payload = \<lparr>Type = ''testName'', Data = Map.empty\<rparr>, mode = asynchronous\<rparr> world0)))
       (h_nil, \<lparr>Type = ''testName'', Data = Map.empty\<rparr>) = 4"
  using AddHandlers_cumulative [of "[h_nil, h_nil, h_nil]"
      "bus0\<lparr>handlers := Some [''testName'' \<mapsto> [h_nil]]\<rparr>" 2 "''testName''" h_nil world0
      "bus0\<lparr>handlers := Some [''testName'' \<mapsto> [h_nil, h_nil, h_nil, h_nil]]\<rparr>"
      "\<lparr>payload = \<lparr>Type = ''testName'', Data = Map.empty\<rparr>, mode = asynchronous\<rparr>"]
  by (simp add: bus0_def world0_def New_def make_map_def AddHandlers_def map_set_def map_get_def
      map_entry_def)

section \<open>Posting returns nil\<close>

text \<open>
  C6. \<open>Post\<close> returns nil and \<open>PostAndWait\<close> returns nil, for every payload, whatever
  its type and whatever is registered on the bus.
\<close>

theorem Post_returns_nil:
  "fst (Post b p w) = None \<and> fst (PostAndWait b p w) = None"
  by (simp add: Post_def PostAndWait_def)

section \<open>The two modes\<close>

text \<open>
  C7. \<open>Post\<close> puts a rider with the mode \<open>asynchronous\<close> on the channel and
  \<open>PostAndWait\<close> one with the mode \<open>synchronous\<close>. The two constants are 1 and 2: they
  differ and share no bit. In every program on a new bus the riders on the channel carry
  one of the two constants and no other value, so the test \<open>mode == asynchronous\<close> of
  the dispatch loop tells them apart: the rider of \<open>Post\<close> is delivered by a goroutine,
  the rider of \<open>PostAndWait\<close> on the spot, and \<open>modestring\<close> names the two alike.
\<close>

theorem mode_flag_two_values:
  "pubchan (fst (snd (Post b p w))) = pubchan b @ [\<lparr>payload = p, mode = asynchronous\<rparr>]
   \<and> pubchan (fst (snd (PostAndWait b p w))) = pubchan b @ [\<lparr>payload = p, mode = synchronous\<rparr>]
   \<and> synchronous = 1 \<and> asynchronous = 2 \<and> synchronous \<noteq> asynchronous
   \<and> synchronous AND asynchronous = 0
   \<and> (goroutines w0 = [] \<longrightarrow> steps cs (New w0) = Inr (b', w') \<longrightarrow>
        (\<forall>r \<in> set (pubchan b'). mode r = synchronous \<or> mode r = asynchronous)
        \<and> (\<forall>r \<in> set (goroutines w'). mode r = asynchronous))
   \<and> run_body b \<lparr>payload = p, mode = asynchronous\<rparr> w =
        (log_print (LogBroadcasting (Type p) ''asynchronously'') w)
          \<lparr>goroutines := goroutines w @ [\<lparr>payload = p, mode = asynchronous\<rparr>]\<rparr>
   \<and> run_body b \<lparr>payload = p, mode = synchronous\<rparr> w =
        deliver b \<lparr>payload = p, mode = synchronous\<rparr>
          (log_print (LogBroadcasting (Type p) ''synchronously'') w)"
proof -
  have p1: "pubchan (fst (snd (Post b p w))) = pubchan b @ [\<lparr>payload = p, mode = asynchronous\<rparr>]"
    by (simp add: Post_def)
  have p2: "pubchan (fst (snd (PostAndWait b p w))) =
      pubchan b @ [\<lparr>payload = p, mode = synchronous\<rparr>]"
    by (simp add: PostAndWait_def)
  have m: "goroutines w0 = [] \<longrightarrow> steps cs (New w0) = Inr (b', w') \<longrightarrow>
        (\<forall>r \<in> set (pubchan b'). mode r = synchronous \<or> mode r = asynchronous)
        \<and> (\<forall>r \<in> set (goroutines w'). mode r = asynchronous)"
  proof (intro impI)
    assume g: "goroutines w0 = []" and st: "steps cs (New w0) = Inr (b', w')"
    from steps_two_modes[OF New_two_modes[OF g] st]
    show "(\<forall>r \<in> set (pubchan b'). mode r = synchronous \<or> mode r = asynchronous)
        \<and> (\<forall>r \<in> set (goroutines w'). mode r = asynchronous)"
      by (simp add: two_modes_def)
  qed
  have a: "run_body b \<lparr>payload = p, mode = asynchronous\<rparr> w =
        (log_print (LogBroadcasting (Type p) ''asynchronously'') w)
          \<lparr>goroutines := goroutines w @ [\<lparr>payload = p, mode = asynchronous\<rparr>]\<rparr>"
    by (simp add: run_body_def Let_def modestring_values log_print_def)
  have s: "run_body b \<lparr>payload = p, mode = synchronous\<rparr> w =
        deliver b \<lparr>payload = p, mode = synchronous\<rparr>
          (log_print (LogBroadcasting (Type p) ''synchronously'') w)"
    by (simp add: run_body_def Let_def modestring_values flag_values(3))
  show ?thesis
    by (intro conjI p1 p2 flag_values m a s)
qed

text \<open>
  An instance: a handler is registered on a new bus, a payload is posted both ways and
  the loop has not run yet. The two riders wait on the channel with the two modes.
\<close>

theorem mode_flag_two_values_witness:
  "goroutines world0 = []
   \<and> steps [CallAddHandlers 0 ''ping'' [h_nil], CallPost ping, CallPostAndWait ping] (New world0)
       = Inr (bus0\<lparr>pubchan := [\<lparr>payload = ping, mode = asynchronous\<rparr>,
                                 \<lparr>payload = ping, mode = synchronous\<rparr>],
                    handlers := Some [''ping'' \<mapsto> [h_nil]]\<rparr>,
              \<lparr>trace = [LogCreating, LogRunning, LogPosting ''ping'', LogPosting ''ping''],
                 user = [], goroutines = []\<rparr>)
   \<and> mode \<lparr>payload = ping, mode = asynchronous\<rparr> \<noteq> mode \<lparr>payload = ping, mode = synchronous\<rparr>"
  using mode_flag_two_values [of bus0 ping world0 world0
      "[CallAddHandlers 0 ''ping'' [h_nil], CallPost ping, CallPostAndWait ping]"
      "bus0\<lparr>pubchan := [\<lparr>payload = ping, mode = asynchronous\<rparr>,
                                 \<lparr>payload = ping, mode = synchronous\<rparr>],
                    handlers := Some [''ping'' \<mapsto> [h_nil]]\<rparr>"
      "\<lparr>trace = [LogCreating, LogRunning, LogPosting ''ping'', LogPosting ''ping''],
                 user = [], goroutines = []\<rparr>"]
  by (simp add: world0_def bus0_def New_def make_map_def log_print_def AddHandlers_def
      map_set_def map_get_def map_entry_def Post_def PostAndWait_def ping_def flag_values)

section \<open>Construction and the maps\<close>

text \<open>
  C8. \<open>New\<close> returns a bus whose map of channels and map of handlers are made and
  empty. Every operation keeps a map field that is not nil not nil: \<open>AddHandlers\<close> and
  \<open>AddChannel\<close> when they return, \<open>Post\<close>, \<open>PostAndWait\<close> and the dispatch loop with
  its deliveries, which leave the three map fields as they are. So after every program on
  a new bus the two registration maps are not nil, and no call of the program panics.
\<close>

theorem maps_never_nil:
  "subchans (fst (New w)) = Some Map.empty \<and> handlers (fst (New w)) = Some Map.empty
   \<and> map_len (subchans (fst (New w))) = 0 \<and> map_len (handlers (fst (New w))) = 0
   \<and> (AddHandlers b now ty fns = Inr (e, b1) \<longrightarrow>
        (subchans b \<noteq> None \<longrightarrow> subchans b1 \<noteq> None)
        \<and> (handlers b \<noteq> None \<longrightarrow> handlers b1 \<noteq> None)
        \<and> (flags b \<noteq> None \<longrightarrow> flags b1 \<noteq> None))
   \<and> (AddChannel b ty c = Inr b2 \<longrightarrow>
        (subchans b \<noteq> None \<longrightarrow> subchans b2 \<noteq> None)
        \<and> (handlers b \<noteq> None \<longrightarrow> handlers b2 \<noteq> None)
        \<and> (flags b \<noteq> None \<longrightarrow> flags b2 \<noteq> None))
   \<and> subchans (fst (snd (Post b p w))) = subchans b
   \<and> handlers (fst (snd (Post b p w))) = handlers b
   \<and> flags (fst (snd (Post b p w))) = flags b
   \<and> subchans (fst (snd (PostAndWait b p w))) = subchans b
   \<and> handlers (fst (snd (PostAndWait b p w))) = handlers b
   \<and> flags (fst (snd (PostAndWait b p w))) = flags b
   \<and> subchans (fst (run b w)) = subchans b
   \<and> handlers (fst (run b w)) = handlers b
   \<and> flags (fst (run b w)) = flags b
   \<and> (\<exists>b' w'. steps cs (New w) = Inr (b', w') \<and> subchans b' \<noteq> None \<and> handlers b' \<noteq> None)"
proof -
  have n: "subchans (fst (New w)) = Some Map.empty" "handlers (fst (New w)) = Some Map.empty"
    "map_len (subchans (fst (New w))) = 0" "map_len (handlers (fst (New w))) = 0"
    by (simp_all add: New_def make_map_def map_len_def)
  have h: "AddHandlers b now ty fns = Inr (e, b1) \<longrightarrow>
        (subchans b \<noteq> None \<longrightarrow> subchans b1 \<noteq> None)
        \<and> (handlers b \<noteq> None \<longrightarrow> handlers b1 \<noteq> None)
        \<and> (flags b \<noteq> None \<longrightarrow> flags b1 \<noteq> None)"
    using AddHandlers_maps[of b now ty fns e b1] by simp
  have c: "AddChannel b ty c = Inr b2 \<longrightarrow>
        (subchans b \<noteq> None \<longrightarrow> subchans b2 \<noteq> None)
        \<and> (handlers b \<noteq> None \<longrightarrow> handlers b2 \<noteq> None)
        \<and> (flags b \<noteq> None \<longrightarrow> flags b2 \<noteq> None)"
    using AddChannel_maps[of b ty c b2] by simp
  have s: "\<exists>b' w'. steps cs (New w) = Inr (b', w') \<and> subchans b' \<noteq> None \<and> handlers b' \<noteq> None"
    using steps_ready[of "New w" cs] New_ready[of w] by (auto simp: ready_def)
  show ?thesis
    by (intro conjI n h c s conjunct1[OF Post_maps] conjunct1[OF conjunct2[OF Post_maps]]
        conjunct2[OF conjunct2[OF Post_maps]] conjunct1[OF PostAndWait_maps]
        conjunct1[OF conjunct2[OF PostAndWait_maps]] conjunct2[OF conjunct2[OF PostAndWait_maps]]
        conjunct1[OF run_maps] conjunct1[OF conjunct2[OF run_maps]]
        conjunct2[OF conjunct2[OF run_maps]])
qed

text \<open>
  An instance: on a new bus a handler and a channel are registered, a payload is posted
  and the loop delivers it. The calls return and the maps hold what was registered.
\<close>

theorem maps_never_nil_witness:
  "AddHandlers (fst (New world0)) 3 ''ping'' [h_nil] =
     Inr (None, bus0\<lparr>handlers := Some [''ping'' \<mapsto> [h_nil]]\<rparr>)
   \<and> AddChannel (fst (New world0)) ''ping'' 7 = Inr (bus0\<lparr>subchans := Some [''ping'' \<mapsto> [7]]\<rparr>)
   \<and> subchans (fst (New world0)) \<noteq> None \<and> handlers (fst (New world0)) \<noteq> None
   \<and> flags (fst (New world0)) = None
   \<and> (\<exists>b' w'. steps [CallAddHandlers 3 ''ping'' [h_nil], CallAddChannel ''ping'' 7,
                       CallPostAndWait ping, Dispatch] (New world0) = Inr (b', w')
         \<and> subchans b' \<noteq> None \<and> handlers b' \<noteq> None)"
  using maps_never_nil [of world0 "fst (New world0)" 3 "''ping''" "[h_nil]" None
      "bus0\<lparr>handlers := Some [''ping'' \<mapsto> [h_nil]]\<rparr>" 7
      "bus0\<lparr>subchans := Some [''ping'' \<mapsto> [7]]\<rparr>" ping
      "[CallAddHandlers 3 ''ping'' [h_nil], CallAddChannel ''ping'' 7,
                       CallPostAndWait ping, Dispatch]"]
  by (simp add: New_def bus0_def make_map_def AddHandlers_def AddChannel_def map_set_def
      map_get_def map_entry_def map_ok_def)

section \<open>Registering a channel\<close>

text \<open>
  C9. The two branches of \<open>AddChannel\<close> do what the single append
  \<open>b.subchans[typ] = append(b.subchans[typ], c)\<close> does, on every bus, for every type
  name and channel: whether the type has an entry or not, the channel is appended to the
  channels of the type, which are none when there is no entry.
\<close>

theorem AddChannel_is_append:
  "AddChannel b typ c = AddChannel_append b typ c"
  by (auto simp: AddChannel_def AddChannel_append_def map_ok_def map_get_def map_entry_def
      map_set_def split: option.splits)

section \<open>What registration touches\<close>

text \<open>
  C10. \<open>AddHandlers\<close> for a type changes the handlers of that type and nothing else of
  the bus: the channels' map, the riders on \<open>pubchan\<close>, the flags and the handlers of
  every other type are as before. \<open>AddChannel\<close> for a type changes the channels of that
  type and nothing else: the handlers' map, \<open>pubchan\<close>, the flags and the channels of
  every other type are as before.
\<close>

theorem registration_footprint:
  "(AddHandlers b now ty fns = Inr (e, b1) \<longrightarrow>
      subchans b1 = subchans b \<and> pubchan b1 = pubchan b \<and> flags b1 = flags b
      \<and> (\<forall>t. t \<noteq> ty \<longrightarrow> map_entry (handlers b1) t = map_entry (handlers b) t))
   \<and> (AddChannel b ty c = Inr b2 \<longrightarrow>
      handlers b2 = handlers b \<and> pubchan b2 = pubchan b \<and> flags b2 = flags b
      \<and> (\<forall>t. t \<noteq> ty \<longrightarrow> map_entry (subchans b2) t = map_entry (subchans b) t))"
  using AddHandlers_maps[of b now ty fns e b1] AddHandlers_entries[of b now ty fns e b1]
    AddChannel_maps[of b ty c b2] AddChannel_entries[of b ty c b2]
  by blast

text \<open>
  An instance: on a bus with a handler and a channel for \<open>ping\<close> and a rider on its way,
  a handler and a channel are registered for \<open>pong\<close>. What is registered for \<open>ping\<close> and
  the rider stay.
\<close>

theorem registration_footprint_witness:
  "AddHandlers (bus0\<lparr>pubchan := [\<lparr>payload = ping, mode = synchronous\<rparr>],
                     subchans := Some [''ping'' \<mapsto> [7]],
                     handlers := Some [''ping'' \<mapsto> [h_nil]]\<rparr>) 5 ''pong'' [h_fail]
     = Inr (None, bus0\<lparr>pubchan := [\<lparr>payload = ping, mode = synchronous\<rparr>],
                     subchans := Some [''ping'' \<mapsto> [7]],
                     handlers := Some [''ping'' \<mapsto> [h_nil], ''pong'' \<mapsto> [h_fail]]\<rparr>)
   \<and> AddChannel (bus0\<lparr>pubchan := [\<lparr>payload = ping, mode = synchronous\<rparr>],
                     subchans := Some [''ping'' \<mapsto> [7]],
                     handlers := Some [''ping'' \<mapsto> [h_nil]]\<rparr>) ''pong'' 8
     = Inr (bus0\<lparr>pubchan := [\<lparr>payload = ping, mode = synchronous\<rparr>],
                     subchans := Some [''ping'' \<mapsto> [7], ''pong'' \<mapsto> [8]],
                     handlers := Some [''ping'' \<mapsto> [h_nil]]\<rparr>)
   \<and> map_entry (Some [''ping'' \<mapsto> [h_nil], ''pong'' \<mapsto> [h_fail]]) ''ping''
       = map_entry (Some [''ping'' \<mapsto> [h_nil]]) ''ping''
   \<and> map_entry (Some [''ping'' \<mapsto> [7::nat], ''pong'' \<mapsto> [8]]) ''ping''
       = map_entry (Some [''ping'' \<mapsto> [7]]) ''ping''"
  using registration_footprint [of
      "bus0\<lparr>pubchan := [\<lparr>payload = ping, mode = synchronous\<rparr>],
                     subchans := Some [''ping'' \<mapsto> [7]],
                     handlers := Some [''ping'' \<mapsto> [h_nil]]\<rparr>" 5 "''pong''" "[h_fail]" None
      "bus0\<lparr>pubchan := [\<lparr>payload = ping, mode = synchronous\<rparr>],
                     subchans := Some [''ping'' \<mapsto> [7]],
                     handlers := Some [''ping'' \<mapsto> [h_nil], ''pong'' \<mapsto> [h_fail]]\<rparr>" 8
      "bus0\<lparr>pubchan := [\<lparr>payload = ping, mode = synchronous\<rparr>],
                     subchans := Some [''ping'' \<mapsto> [7], ''pong'' \<mapsto> [8]],
                     handlers := Some [''ping'' \<mapsto> [h_nil]]\<rparr>"]
  by (simp add: bus0_def AddHandlers_def AddChannel_def map_set_def map_get_def map_entry_def
      map_ok_def)

end
